theory Spec2Isabelle
  imports Complex_Main "HOL-Library.AList"
begin

section \<open>Python values and dictionaries\<close>

text \<open>
  The configuration values of a backend are what a TOML file holds (strings, integers,
  floats, booleans), and \<open>None\<close> where a default is absent. A float is only stored,
  passed on and tested for zero by the code modelled here, never computed with, so it is
  carried as a real number.
\<close>

datatype pyvalue = VNone | VBool bool | VInt int | VFloat real | VStr string

text \<open>Python's truth value of an object, as \<open>if x\<close> and \<open>not x\<close> read it.\<close>

fun truthy :: "pyvalue \<Rightarrow> bool" where
  "truthy VNone = False"
| "truthy (VBool b) = b"
| "truthy (VInt i) = (i \<noteq> 0)"
| "truthy (VFloat r) = (r \<noteq> 0)"
| "truthy (VStr s) = (s \<noteq> [])"

text \<open>
  A \<open>dict\<close> with string keys is an association list in insertion order; a well-formed
  one has pairwise distinct keys. \<open>d.get(k, default)\<close> is \<open>dict_get\<close>, \<open>d[k] = v\<close> is
  \<open>dict_set\<close> (the position of an existing key is kept, a new key goes last), and
  \<open>d.pop(k, default)\<close> is the pair of \<open>dict_get\<close> and \<open>dict_del\<close>.
\<close>

type_synonym pydict = "(string \<times> pyvalue) list"

definition dict_get :: "pydict \<Rightarrow> string \<Rightarrow> pyvalue \<Rightarrow> pyvalue" where
  "dict_get d k dflt = (case map_of d k of None \<Rightarrow> dflt | Some v \<Rightarrow> v)"

definition dict_set :: "pydict \<Rightarrow> string \<Rightarrow> pyvalue \<Rightarrow> pydict" where
  "dict_set d k v = AList.update k v d"

definition dict_del :: "pydict \<Rightarrow> string \<Rightarrow> pydict" where
  "dict_del d k = AList.delete k d"

section \<open>The secret codec (module \<open>vaultconfig.obscure\<close>)\<close>

text \<open>
  \<open>config.py\<close> imports \<open>obscure\<close> from the package \<open>vaultconfig\<close>, which is not part
  of the sources. Its three functions are therefore parameters of the model: \<open>obscure\<close>
  and \<open>reveal\<close> return a string or raise, \<open>is_obscured\<close> is a predicate. Nothing is
  assumed about them except where a theorem says so.
\<close>

datatype exn = ValueError | OtherError

record codec =
  obscure :: "string \<Rightarrow> exn + string"
  reveal :: "string \<Rightarrow> exn + string"
  is_obscured :: "string \<Rightarrow> bool"

text \<open>The keys the code treats as secrets: the tuple \<open>("password", "api_key", "drime_password")\<close>.\<close>

definition sensitive_keys :: "string list" where
  "sensitive_keys = [''password'', ''api_key'', ''drime_password'']"

section \<open>\<open>BackendConfig\<close>\<close>

record BackendConfig =
  name :: string
  backend_type :: pyvalue
  config :: pydict

text \<open>
  The block \<open>try: return obscure.reveal(value) except ValueError: return value\<close>: a
  \<open>ValueError\<close> is caught and the raw string is the result; any other exception goes on
  to the caller.
\<close>

definition try_reveal :: "codec \<Rightarrow> string \<Rightarrow> exn + pyvalue" where
  "try_reveal c s =
     (case reveal c s of
        Inr p \<Rightarrow> Inr (VStr p)
      | Inl ValueError \<Rightarrow> Inr (VStr s)
      | Inl e \<Rightarrow> Inl e)"

text \<open>\<open>BackendConfig.get(key, default)\<close>.\<close>

definition get :: "codec \<Rightarrow> BackendConfig \<Rightarrow> string \<Rightarrow> pyvalue \<Rightarrow> exn + pyvalue" where
  "get c self key dflt =
     (let v = dict_get (config self) key dflt in
      case v of
        VStr s \<Rightarrow> if key \<in> set sensitive_keys then try_reveal c s else Inr v
      | _ \<Rightarrow> Inr v)"

text \<open>
  \<open>BackendConfig.get_all()\<close>: the loop over \<open>self._config.items()\<close>, building
  \<open>result\<close> key by key.
\<close>

fun get_all_loop :: "codec \<Rightarrow> pydict \<Rightarrow> pydict \<Rightarrow> exn + pydict" where
  "get_all_loop c [] result = Inr result"
| "get_all_loop c ((key, v) # items) result =
     (case v of
        VStr s \<Rightarrow>
          if key \<in> set sensitive_keys then
            (case try_reveal c s of
               Inl e \<Rightarrow> Inl e
             | Inr v' \<Rightarrow> get_all_loop c items (dict_set result key v'))
          else get_all_loop c items (dict_set result key v)
      | _ \<Rightarrow> get_all_loop c items (dict_set result key v))"

definition get_all :: "codec \<Rightarrow> BackendConfig \<Rightarrow> exn + pydict" where
  "get_all c self = get_all_loop c (config self) []"

section \<open>\<open>PyWebDAVConfigManager\<close>\<close>

text \<open>
  The manager wraps a \<open>vaultconfig.ConfigManager\<close>, which is not part of the sources. What
  the code reads from it is its state here: the names \<open>list_configs()\<close> returns, in the
  order it returns them, and for each name the raw dictionary of the entry
  \<open>get_config(name)\<close> returns (\<open>None\<close> when it returns nothing). The two are independent:
  a listed name need not load.
\<close>

record manager =
  list_configs :: "string list"
  get_config :: "string \<Rightarrow> pydict option"

definition list_backends :: "manager \<Rightarrow> string list" where
  "list_backends m = list_configs m"

text \<open>
  \<open>get_backend(name)\<close>: \<open>None\<close> when there is no entry; otherwise the entry's type is popped
  from its data (\<open>"local"\<close> when the key is missing) and the rest is the record's config.
\<close>

definition get_backend :: "manager \<Rightarrow> string \<Rightarrow> BackendConfig option" where
  "get_backend m nm =
     (case get_config m nm of
        None \<Rightarrow> None
      | Some data \<Rightarrow>
          Some \<lparr>name = nm,
                backend_type = dict_get data ''type'' (VStr ''local''),
                config = dict_del data ''type''\<rparr>)"

text \<open>\<open>get_backend_names_by_type(backend_type)\<close>: the loop over \<open>list_backends()\<close>.\<close>

fun names_by_type_loop :: "manager \<Rightarrow> string \<Rightarrow> string list \<Rightarrow> string list \<Rightarrow> string list" where
  "names_by_type_loop m t [] result = result"
| "names_by_type_loop m t (nm # names) result =
     (case get_backend m nm of
        Some backend \<Rightarrow>
          if backend_type backend = VStr t then names_by_type_loop m t names (result @ [nm])
          else names_by_type_loop m t names result
      | None \<Rightarrow> names_by_type_loop m t names result)"

definition get_backend_names_by_type :: "manager \<Rightarrow> string \<Rightarrow> string list" where
  "get_backend_names_by_type m t = names_by_type_loop m t (list_backends m) []"

text \<open>The dictionary display \<open>{"type": backend_type, **config}\<close>: the type first, then every
  item of \<open>config\<close> set in turn (so a \<open>"type"\<close> key of \<open>config\<close> replaces the argument).\<close>

definition with_type :: "string \<Rightarrow> pydict \<Rightarrow> pydict" where
  "with_type btype cfg = fold (\<lambda>(k, v) d. dict_set d k v) cfg [(''type'', VStr btype)]"

text \<open>
  The loop \<open>for key in ("password", "api_key", "drime_password")\<close> of \<open>add_backend\<close>: a
  key that is present with a string value that \<open>is_obscured\<close> rejects is replaced by its
  obscured form; an exception of \<open>obscure\<close> ends the call.
\<close>

fun obscure_loop :: "codec \<Rightarrow> string list \<Rightarrow> pydict \<Rightarrow> exn + pydict" where
  "obscure_loop c [] full_config = Inr full_config"
| "obscure_loop c (key # keys) full_config =
     (case map_of full_config key of
        Some (VStr s) \<Rightarrow>
          if \<not> is_obscured c s then
            (case obscure c s of
               Inl e \<Rightarrow> Inl e
             | Inr t \<Rightarrow> obscure_loop c keys (dict_set full_config key (VStr t)))
          else obscure_loop c keys full_config
      | _ \<Rightarrow> obscure_loop c keys full_config)"

text \<open>
  Modelled from the spec: \<open>add_config\<close> of the \<open>vaultconfig.ConfigManager\<close>, which is not part
  of the sources. The spec's store keeps one record per name and "overwrites any existing
  record with the same name in full (not a merge)"; a new name is listed after the others.
\<close>

definition add_config :: "manager \<Rightarrow> string \<Rightarrow> pydict \<Rightarrow> manager" where
  "add_config m nm full_config =
     m\<lparr>list_configs := (if nm \<in> set (list_configs m) then list_configs m else list_configs m @ [nm]),
       get_config := (get_config m)(nm \<mapsto> full_config)\<rparr>"

text \<open>\<open>add_backend(name, backend_type, config, obscure_passwords)\<close>; the result is the manager
  after the call, or the exception that ended it.\<close>

definition add_backend :: "codec \<Rightarrow> manager \<Rightarrow> string \<Rightarrow> string \<Rightarrow> pydict \<Rightarrow> bool \<Rightarrow> exn + manager" where
  "add_backend c m nm btype cfg obscure_passwords =
     (let full_config = with_type btype cfg in
      if obscure_passwords then
        (case obscure_loop c sensitive_keys full_config of
           Inl e \<Rightarrow> Inl e
         | Inr full_config' \<Rightarrow> Inr (add_config m nm full_config'))
      else Inr (add_config m nm full_config))"

section \<open>The command line: \<open>cli.py\<close>\<close>

subsection \<open>Providers, the server call and what is printed\<close>

text \<open>
  The providers and the server are other modules. A provider is the record of the arguments
  its constructor was called with: \<open>LocalStorageProvider(root_path, readonly)\<close> and
  \<open>DrimeDAVProvider(client, workspace_id, readonly, cache_ttl, max_file_size)\<close> with
  \<open>DrimeClient(api_key)\<close>. The arguments are values as the caller has them: in the
  named-config path they come out of a dictionary and are not checked for their type.
\<close>

datatype drime_client = DrimeClient pyvalue

datatype provider =
    LocalStorageProvider pyvalue pyvalue
  | DrimeDAVProvider drime_client pyvalue pyvalue pyvalue pyvalue

text \<open>The four f-strings that name the server.\<close>

datatype server_label =
    NamedLocal string pyvalue \<comment> \<open>\<open>PyWebDAV Server ({name}: {root_path})\<close>\<close>
  | NamedDrime string pyvalue \<comment> \<open>\<open>PyWebDAV Server ({name}: workspace {workspace_id_config})\<close>\<close>
  | LegacyLocal string \<comment> \<open>\<open>PyWebDAV Server (Local: {path})\<close>\<close>
  | LegacyDrime int \<comment> \<open>\<open>PyWebDAV Server (Drime: workspace {workspace_id})\<close>\<close>

text \<open>The keyword arguments of \<open>run_webdav_server\<close>.\<close>

record server_args =
  srv_provider :: provider
  srv_host :: string
  srv_port :: int
  srv_username :: "string option"
  srv_password :: "string option"
  srv_verbose :: int
  srv_ssl_cert :: "string option"
  srv_ssl_key :: "string option"
  srv_server_name :: server_label

text \<open>The calls into the other modules; each may raise, and the world says which do.\<close>

datatype call =
    New_DrimeClient pyvalue
  | New_Provider provider
  | Run_webdav_server server_args

text \<open>
  Every \<open>console.print\<close> of the two modules is one constructor, with the values its f-string
  formats; the markup and the wording are in the source.
\<close>

datatype msg =
    WarnNoPassword \<comment> \<open>Warning: Username provided but no password. Using anonymous access.\<close>
  | WarnNoUsername \<comment> \<open>Warning: Password provided but no username. Using anonymous access.\<close>
  | LoadingBackend string \<comment> \<open>Loading backend '{backend}' from config...\<close>
  | InitLocal pyvalue \<comment> \<open>Initializing local filesystem provider at: {root_path}\<close>
  | PydrimeMissing \<comment> \<open>Error: Drime backend requires pydrime to be installed. Install it with: ...\<close>
  | ConfigNeedsApiKey string \<comment> \<open>Error: Drime backend requires api_key in config. Reconfigure with: pywebdavserver config add {name}\<close>
  | EnvNeedsApiKey \<comment> \<open>Error: Drime backend requires DRIME_API_KEY environment variable. Set it with: export DRIME_API_KEY='your-api-key' Or configure a named backend: pywebdavserver config add drime-personal\<close>
  | ConnectingDrime pyvalue \<comment> \<open>Connecting to Drime Cloud (workspace: {workspace_id})...\<close>
  | UnknownBackendType pyvalue \<comment> \<open>Error: Unknown backend type '{backend_type}'\<close>
  | UnknownBackend string \<comment> \<open>Error: Unknown backend '{backend_type}'\<close>
  | AvailableBackends string \<comment> \<open>Available backends: local, drime\<close>
  | OrUseConfigured \<comment> \<open>Or use a configured backend:\<close>
  | BackendItem string \<comment> \<open>- {name}\<close>
  | ErrorInitializing pyvalue string \<comment> \<open>Error initializing {backend_type} provider: {e}\<close>
  | Starting \<comment> \<open>Starting PyWebDAV Server\<close>
  | BackendNamed string pyvalue \<comment> \<open>Backend: {name} (type: {backend_type})\<close>
  | BackendLegacy string \<comment> \<open>Backend: {backend_type}\<close>
  | Address string int \<comment> \<open>Address: {host}:{port}\<close>
  | Mode bool \<comment> \<open>Mode: Read-only (\<open>True\<close>) or Read-write (\<open>False\<close>)\<close>
  | AuthEnabled string \<comment> \<open>Auth: Enabled (user: {username})\<close>
  | AuthDisabled \<comment> \<open>Auth: Disabled (anonymous access)\<close>
  | SSLEnabled \<comment> \<open>SSL: Enabled\<close>
  | Blank \<comment> \<open>the empty \<open>console.print()\<close>\<close>
  | ErrorRunningServer string \<comment> \<open>Error running server: {e}\<close>

datatype event = Print msg | Call call

text \<open>How a run ends: the function returns, \<open>sys.exit(code)\<close>, or an exception nobody catches.\<close>

datatype outcome = Returned | Exit int | Uncaught exn

text \<open>
  What a run depends on besides its arguments: the global config manager and the codec, the
  process environment, whether \<open>pydrime\<close> can be imported, which calls into the other
  modules raise (with the exception's text), and the constants of \<open>constants.py\<close>, which is
  not part of the sources.
\<close>

record world =
  manager :: manager
  codec :: codec
  environ :: "string \<Rightarrow> string option"
  pydrime_installed :: bool
  raises :: "call \<Rightarrow> string option"
  DEFAULT_PATH :: string
  DEFAULT_CACHE_TTL :: real
  DEFAULT_MAX_FILE_SIZE :: int

text \<open>The truth value of a \<open>str | None\<close>.\<close>

definition truthy_opt :: "string option \<Rightarrow> bool" where
  "truthy_opt x = (case x of None \<Rightarrow> False | Some s \<Rightarrow> s \<noteq> [])"

text \<open>
  \<open>str.lower()\<close>. A \<open>char\<close> is a byte, so the letters \<open>A\<close> to \<open>Z\<close> are lowered and every
  other byte is kept; the result is only ever compared with \<open>"local"\<close> and \<open>"drime"\<close>.
\<close>

definition lower_char :: "char \<Rightarrow> char" where
  "lower_char ch =
     (let n = (of_char ch :: nat) in if 65 \<le> n \<and> n \<le> 90 then char_of (n + 32) else ch)"

definition lower :: "string \<Rightarrow> string" where
  "lower s = map lower_char s"

subsection \<open>Calls that may raise\<close>

text \<open>
  The calls of a \<open>try\<close> block in order: each is made; the first one that raises ends the
  block with its exception's text.
\<close>

fun try_calls :: "world \<Rightarrow> call list \<Rightarrow> event list \<times> string option" where
  "try_calls w [] = ([], None)"
| "try_calls w (c # cs) =
     (case raises w c of
        Some e \<Rightarrow> ([Call c], Some e)
      | None \<Rightarrow> (let (evs, r) = try_calls w cs in (Call c # evs, r)))"

text \<open>
  The block \<open># Start the server\<close>, which is the same text in both start functions:
  \<open>run_webdav_server\<close> is called with \<open>verbose + 1\<close>; an exception is printed and the
  process exits with code 1.
\<close>

definition start_the_server ::
  "world \<Rightarrow> provider \<Rightarrow> string \<Rightarrow> int \<Rightarrow> string option \<Rightarrow> string option \<Rightarrow> int \<Rightarrow>
   string option \<Rightarrow> string option \<Rightarrow> server_label \<Rightarrow> event list \<times> outcome" where
  "start_the_server w provider host port username password verbose ssl_cert ssl_key server_name =
     (let c = Run_webdav_server
                \<lparr>srv_provider = provider, srv_host = host, srv_port = port,
                 srv_username = username, srv_password = password, srv_verbose = verbose + 1,
                 srv_ssl_cert = ssl_cert, srv_ssl_key = ssl_key, srv_server_name = server_name\<rparr>
      in case raises w c of
           None \<Rightarrow> ([Call c], Returned)
         | Some e \<Rightarrow> ([Call c, Print (ErrorRunningServer e)], Exit 1))"

text \<open>The lines that print the authentication and SSL status, the same in both functions.\<close>

definition auth_ssl_info :: "string option \<Rightarrow> string option \<Rightarrow> string option \<Rightarrow> event list" where
  "auth_ssl_info username ssl_cert ssl_key =
     (case username of
        Some u \<Rightarrow> if u \<noteq> [] then [Print (AuthEnabled u)] else [Print AuthDisabled]
      | None \<Rightarrow> [Print AuthDisabled])
     @ (if truthy_opt ssl_cert \<and> truthy_opt ssl_key then [Print SSLEnabled] else [])
     @ [Print Blank]"

subsection \<open>\<open>_start_from_config\<close>\<close>

text \<open>
  The first \<open>try\<close> block of \<open>_start_from_config\<close>: the provider for the record's type, built
  from the revealed dictionary \<open>cfg\<close> of the record. The result is what was printed and
  called, and either how the process ended or the provider with the server's name.
  \<open>sys.exit\<close> raises \<open>SystemExit\<close>, which \<open>except Exception\<close> does not catch.
\<close>

definition provider_from_config ::
  "world \<Rightarrow> BackendConfig \<Rightarrow> pydict \<Rightarrow> event list \<times> (outcome + provider \<times> server_label)" where
  "provider_from_config w backend_config cfg =
     (let btype = backend_type backend_config in
      if btype = VStr ''local'' then
        (let root_path = dict_get cfg ''path'' (VStr (DEFAULT_PATH w));
             readonly = dict_get cfg ''readonly'' (VBool False);
             provider = LocalStorageProvider root_path readonly;
             (evs, r) = try_calls w [New_Provider provider]
         in case r of
              Some e \<Rightarrow> (Print (InitLocal root_path) # evs @ [Print (ErrorInitializing btype e)], Inl (Exit 1))
            | None \<Rightarrow> (Print (InitLocal root_path) # evs,
                        Inr (provider, NamedLocal (name backend_config) root_path)))
      else if btype = VStr ''drime'' then
        (if \<not> pydrime_installed w then ([Print PydrimeMissing], Inl (Exit 1))
         else
           (let api_key = dict_get cfg ''api_key'' VNone;
                workspace_id_config = dict_get cfg ''workspace_id'' (VInt 0);
                readonly = dict_get cfg ''readonly'' (VBool False);
                cache_ttl = dict_get cfg ''cache_ttl'' (VFloat (DEFAULT_CACHE_TTL w));
                max_file_size = dict_get cfg ''max_file_size'' (VInt (DEFAULT_MAX_FILE_SIZE w))
            in if \<not> truthy api_key then
                 ([Print (ConfigNeedsApiKey (name backend_config))], Inl (Exit 1))
               else
                 (let provider = DrimeDAVProvider (DrimeClient api_key) workspace_id_config
                                   readonly cache_ttl max_file_size;
                      (evs, r) = try_calls w [New_DrimeClient api_key, New_Provider provider]
                  in case r of
                       Some e \<Rightarrow> (Print (ConnectingDrime workspace_id_config) # evs
                                   @ [Print (ErrorInitializing btype e)], Inl (Exit 1))
                     | None \<Rightarrow> (Print (ConnectingDrime workspace_id_config) # evs,
                                 Inr (provider, NamedDrime (name backend_config) workspace_id_config)))))
      else ([Print (UnknownBackendType btype)], Inl (Exit 1)))"

text \<open>
  \<open>_start_from_config\<close>: the record's dictionary is revealed by \<open>get_all()\<close> (outside every
  \<open>try\<close>), the provider is built, the server information is printed and the server started.
\<close>

definition start_from_config ::
  "world \<Rightarrow> BackendConfig \<Rightarrow> string \<Rightarrow> int \<Rightarrow> string option \<Rightarrow> string option \<Rightarrow>
   string option \<Rightarrow> string option \<Rightarrow> int \<Rightarrow> event list \<times> outcome" where
  "start_from_config w backend_config host port username password ssl_cert ssl_key verbose =
     (case get_all (codec w) backend_config of
        Inl e \<Rightarrow> ([], Uncaught e)
      | Inr cfg \<Rightarrow>
          (case provider_from_config w backend_config cfg of
             (evs, Inl oc) \<Rightarrow> (evs, oc)
           | (evs, Inr (provider, server_name)) \<Rightarrow>
               (let readonly = dict_get cfg ''readonly'' (VBool False);
                    info = [Print Starting,
                            Print (BackendNamed (name backend_config) (backend_type backend_config)),
                            Print (Address host port),
                            Print (Mode (truthy readonly))]
                           @ auth_ssl_info username ssl_cert ssl_key;
                    (evs', oc) = start_the_server w provider host port username password verbose
                                   ssl_cert ssl_key server_name
                in (evs @ info @ evs', oc))))"

subsection \<open>\<open>_start_from_type\<close>\<close>

text \<open>
  The first \<open>try\<close> block of \<open>_start_from_type\<close>: the provider for a type given on the command
  line. The Drime credential is \<open>os.environ.get("DRIME_API_KEY")\<close>.
\<close>

definition provider_from_type ::
  "world \<Rightarrow> string \<Rightarrow> string \<Rightarrow> bool \<Rightarrow> real \<Rightarrow> int \<Rightarrow> int \<Rightarrow>
   event list \<times> (outcome + provider \<times> server_label)" where
  "provider_from_type w btype path readonly cache_ttl max_file_size workspace_id =
     (if lower btype = ''local'' then
        (let provider = LocalStorageProvider (VStr path) (VBool readonly);
             (evs, r) = try_calls w [New_Provider provider]
         in case r of
              Some e \<Rightarrow> (Print (InitLocal (VStr path)) # evs
                          @ [Print (ErrorInitializing (VStr btype) e)], Inl (Exit 1))
            | None \<Rightarrow> (Print (InitLocal (VStr path)) # evs, Inr (provider, LegacyLocal path)))
      else if lower btype = ''drime'' then
        (if \<not> pydrime_installed w then ([Print PydrimeMissing], Inl (Exit 1))
         else
           (case environ w ''DRIME_API_KEY'' of
              None \<Rightarrow> ([Print EnvNeedsApiKey], Inl (Exit 1))
            | Some api_key \<Rightarrow>
                if api_key = [] then ([Print EnvNeedsApiKey], Inl (Exit 1))
                else
                  (let provider = DrimeDAVProvider (DrimeClient (VStr api_key)) (VInt workspace_id)
                                    (VBool readonly) (VFloat cache_ttl) (VInt max_file_size);
                       (evs, r) = try_calls w [New_DrimeClient (VStr api_key), New_Provider provider]
                   in case r of
                        Some e \<Rightarrow> (Print (ConnectingDrime (VInt workspace_id)) # evs
                                    @ [Print (ErrorInitializing (VStr btype) e)], Inl (Exit 1))
                      | None \<Rightarrow> (Print (ConnectingDrime (VInt workspace_id)) # evs,
                                  Inr (provider, LegacyDrime workspace_id)))))
      else
        ([Print (UnknownBackend btype), Print (AvailableBackends ''local, drime''),
          Print OrUseConfigured]
         @ map (\<lambda>nm. Print (BackendItem nm)) (list_backends (manager w)),
         Inl (Exit 1)))"

definition start_from_type ::
  "world \<Rightarrow> string \<Rightarrow> string \<Rightarrow> string \<Rightarrow> int \<Rightarrow> string option \<Rightarrow> string option \<Rightarrow> bool \<Rightarrow>
   real \<Rightarrow> int \<Rightarrow> int \<Rightarrow> string option \<Rightarrow> string option \<Rightarrow> int \<Rightarrow> event list \<times> outcome" where
  "start_from_type w btype path host port username password readonly cache_ttl max_file_size
     workspace_id ssl_cert ssl_key verbose =
     (case provider_from_type w btype path readonly cache_ttl max_file_size workspace_id of
        (evs, Inl oc) \<Rightarrow> (evs, oc)
      | (evs, Inr (provider, server_name)) \<Rightarrow>
          (let info = [Print Starting, Print (BackendLegacy btype), Print (Address host port),
                       Print (Mode readonly)]
                      @ auth_ssl_info username ssl_cert ssl_key;
               (evs', oc) = start_the_server w provider host port username password verbose
                              ssl_cert ssl_key server_name
           in (evs @ info @ evs', oc)))"

subsection \<open>\<open>cli\<close>\<close>

text \<open>
  The block \<open># Handle authentication flags\<close> of \<open>cli\<close>: what it prints and the username and
  password the rest of the function goes on with.
\<close>

definition auth_flags ::
  "bool \<Rightarrow> string option \<Rightarrow> string option \<Rightarrow> event list \<times> string option \<times> string option" where
  "auth_flags no_auth username password =
     (if no_auth then ([], None, None)
      else if truthy_opt username \<and> \<not> truthy_opt password then
        ([Print WarnNoPassword], None, password)
      else if \<not> truthy_opt username \<and> truthy_opt password then
        ([Print WarnNoUsername], username, None)
      else ([], username, password))"

text \<open>
  \<open>cli\<close> with its options as \<open>click\<close> hands them over (defaults filled in, \<open>None\<close> for an
  option that has none and was not given), and \<open>ctx.invoked_subcommand\<close>. Setting up the
  logging prints nothing and decides nothing; it is left out.
\<close>

definition cli ::
  "world \<Rightarrow> string option \<Rightarrow> string option \<Rightarrow> string \<Rightarrow> string \<Rightarrow> int \<Rightarrow> string option \<Rightarrow>
   string option \<Rightarrow> bool \<Rightarrow> real \<Rightarrow> int \<Rightarrow> int \<Rightarrow> string option \<Rightarrow> string option \<Rightarrow> int \<Rightarrow> bool \<Rightarrow>
   event list \<times> outcome" where
  "cli w invoked_subcommand backend path host port username password readonly cache_ttl
     max_file_size workspace_id ssl_cert ssl_key verbose no_auth =
     (if invoked_subcommand \<noteq> None then ([], Returned)
      else
        (let backend' = (case backend of None \<Rightarrow> ''local'' | Some b \<Rightarrow> b);
             (warn, username', password') = auth_flags no_auth username password
         in case get_backend (manager w) backend' of
              Some backend_config \<Rightarrow>
                (let (evs, oc) = start_from_config w backend_config host port username' password'
                                   ssl_cert ssl_key verbose
                 in (warn @ Print (LoadingBackend backend') # evs, oc))
            | None \<Rightarrow>
                (let (evs, oc) = start_from_type w backend' path host port username' password'
                                   readonly cache_ttl max_file_size workspace_id ssl_cert ssl_key
                                   verbose
                 in (warn @ evs, oc))))"

section \<open>Concrete inputs\<close>

text \<open>
  A small codec to run the definitions on: a token is its plaintext behind a tilde, the
  empty string cannot be obscured, and whatever is not a tilde followed by something does
  not decode.
\<close>

definition example_codec :: codec where
  "example_codec =
     \<lparr>obscure = (\<lambda>s. if s = [] then Inl ValueError else Inr (CHR ''~'' # s)),
      reveal = (\<lambda>t. case t of [] \<Rightarrow> Inl ValueError
                     | ch # s \<Rightarrow> if ch = CHR ''~'' \<and> s \<noteq> [] then Inr s else Inl ValueError),
      is_obscured = (\<lambda>t. case t of [] \<Rightarrow> False | ch # s \<Rightarrow> ch = CHR ''~'' \<and> s \<noteq> [])\<rparr>"

text \<open>A store with three backends: \<open>a\<close> and \<open>c\<close> local, \<open>b\<close> on Drime.\<close>

definition example_manager :: manager where
  "example_manager =
     \<lparr>list_configs = [''a'', ''b'', ''c''],
      get_config = map_of
        [(''a'', [(''type'', VStr ''local''), (''path'', VStr ''/srv/dav''), (''readonly'', VBool True)]),
         (''b'', [(''type'', VStr ''drime''), (''api_key'', VStr ''~key''), (''workspace_id'', VInt 5)]),
         (''c'', [(''type'', VStr ''local'')])]\<rparr>"

text \<open>A world where \<open>pydrime\<close> is installed, the environment is empty and no call raises.\<close>

definition example_world :: world where
  "example_world =
     \<lparr>manager = example_manager, codec = example_codec, environ = (\<lambda>k. None),
      pydrime_installed = True, raises = (\<lambda>c. None), DEFAULT_PATH = ''/tmp/webdav'',
      DEFAULT_CACHE_TTL = 30, DEFAULT_MAX_FILE_SIZE = 524288000\<rparr>"

section \<open>Listing backends by type\<close>

lemma names_by_type_loop_filter:
  "names_by_type_loop m t names result =
     result @ filter (\<lambda>nm. case get_backend m nm of None \<Rightarrow> False
                           | Some b \<Rightarrow> backend_type b = VStr t) names"
  by (induction names arbitrary: result) (auto split: option.splits)

text \<open>
  Claim C8. For every state of the store and every type \<open>t\<close>,
  \<open>get_backend_names_by_type(t)\<close> is the list \<open>list_backends()\<close> returns with every name
  removed whose record does not load or has another type: exactly the names of type \<open>t\<close>,
  in the order of \<open>list_backends()\<close>.
\<close>

theorem names_by_type_is_filter:
  "get_backend_names_by_type m t =
     filter (\<lambda>nm. case get_backend m nm of None \<Rightarrow> False | Some b \<Rightarrow> backend_type b = VStr t)
       (list_backends m)
   \<and> set (get_backend_names_by_type m t) =
       {nm \<in> set (list_backends m). \<exists>b. get_backend m nm = Some b \<and> backend_type b = VStr t}"
  by (auto simp: get_backend_names_by_type_def names_by_type_loop_filter split: option.splits)

text \<open>
  On the store \<open>{a: local, b: drime, c: local}\<close> the local backends are \<open>a, c\<close>; a listed
  name that does not load (\<open>zz\<close>) is left out.
\<close>

theorem names_by_type_is_filter_witness:
  "get_backend_names_by_type example_manager ''local'' = [''a'', ''c'']
   \<and> get_backend_names_by_type example_manager ''drime'' = [''b'']
   \<and> get_backend_names_by_type (example_manager\<lparr>list_configs := [''a'', ''zz'', ''b'']\<rparr>) ''local'' = [''a'']"
  using names_by_type_is_filter [of example_manager "''local''"]
    names_by_type_is_filter [of example_manager "''drime''"]
    names_by_type_is_filter [of "example_manager\<lparr>list_configs := [''a'', ''zz'', ''b'']\<rparr>" "''local''"]
  by (simp add: example_manager_def list_backends_def get_backend_def dict_get_def dict_del_def)

end
